theory Spec2Isabelle
  imports Main "HOL-Library.Word"
begin

section \<open>The lottery contract of \<^verbatim>\<open>src/contract/src/contract.ts\<close>\<close>

text \<open>
  The contract is a class whose methods read the NEAR host (who signed the transaction,
  who called, which account the contract runs on, how much was attached), mutate the
  fields of \<^verbatim>\<open>this\<close>, and stop with a failed \<^verbatim>\<open>assert\<close>. The embedding passes
  the host data in a record, passes \<^verbatim>\<open>this\<close> explicitly, and returns for every method
  its outcome (a panic with the error, or the returned value), the fields as they are at
  the moment the method stops, and the host calls it has made.
\<close>

subsection \<open>The host\<close>

text \<open>
  What the \<^verbatim>\<open>near\<close> object answers during one call: \<^verbatim>\<open>near.signerAccountId()\<close>,
  \<^verbatim>\<open>near.predecessorAccountId()\<close>, \<^verbatim>\<open>near.currentAccountId()\<close>,
  \<^verbatim>\<open>near.attachedDeposit()\<close> (an unsigned 128-bit amount) and \<^verbatim>\<open>near.randomSeed()\<close>.
\<close>

record near_env =
  signerAccountId :: string
  predecessorAccountId :: string
  currentAccountId :: string
  attachedDeposit :: "128 word"
  randomSeed :: string

text \<open>
  The host calls a method makes: \<^verbatim>\<open>near.log\<close>; the batch promise created for an account
  with its transfer action (\<^verbatim>\<open>promiseBatchCreate\<close>, \<^verbatim>\<open>promiseBatchActionTransfer\<close>); and the
  continuation attached to it and returned (\<^verbatim>\<open>promiseThen\<close>, \<^verbatim>\<open>promiseReturn\<close>), with the
  account, the method name, the arguments, the attached amount and the gas.
\<close>

datatype effect =
    Log string
  | Transfer string int
  | Then string string string int int

subsection \<open>Errors\<close>

text \<open>
  Every failure of the contract is a failed \<^verbatim>\<open>assert\<close> with a message. The constructor
  names the assertion that failed; its argument is the message.
\<close>

datatype error =
    GameInactive string
  | InsufficientFee string
  | Unauthorized string
  | InvalidConfiguration string

datatype 'a outcome = Panic error | Return 'a

subsection \<open>The imported modules\<close>

text \<open>
  \<^verbatim>\<open>contract.ts\<close> imports \<^verbatim>\<open>FeeStrategy\<close> and \<^verbatim>\<open>StrategyType\<close> from
  \<^verbatim>\<open>./fee-strategies\<close>, \<^verbatim>\<open>Lottery\<close> from \<^verbatim>\<open>./lottery\<close> and \<^verbatim>\<open>asNEAR\<close>,
  \<^verbatim>\<open>ONE_NEAR\<close>, \<^verbatim>\<open>XCC_GAS\<close> from \<^verbatim>\<open>./utils\<close>. What the contract uses of them is a
  parameter of the model: \<open>'fs\<close> is a \<^verbatim>\<open>FeeStrategy\<close> object, \<open>'st\<close> a
  \<^verbatim>\<open>StrategyType\<close>, \<open>'lot\<close> a \<^verbatim>\<open>Lottery\<close> object and \<open>'ch\<close> the chance given to
  \<^verbatim>\<open>Lottery.configure\<close>. The constructors and \<^verbatim>\<open>configure\<close> may throw;
  \<^verbatim>\<open>Lottery.play\<close> draws from the host's random seed.
\<close>

record ('fs, 'st, 'lot, 'ch) modules =
  ONE_NEAR :: int
  XCC_GAS :: int
  asNEAR :: "int \<Rightarrow> string"
  FeeStrategy_default :: 'fs
  FeeStrategy_new :: "'st \<Rightarrow> error + 'fs"
  FeeStrategy_calculate :: "'fs \<Rightarrow> nat \<Rightarrow> int \<Rightarrow> int"
  Lottery_default :: 'lot
  Lottery_configure :: "'lot \<Rightarrow> 'ch \<Rightarrow> error + 'lot"
  Lottery_play :: "'lot \<Rightarrow> string \<Rightarrow> bool"

subsection \<open>JavaScript values\<close>

text \<open>
  \<^verbatim>\<open>Number(v)\<close> of a non-negative integer \<open>v\<close> is the IEEE 754 double nearest to \<open>v\<close>,
  ties to the even significand. A double has 53 significant bits: \<open>ulp v\<close> is the distance
  between neighbouring doubles at the size of \<open>v\<close>, the least power of two \<open>u\<close> with
  \<open>v div u < 2 ^ 53\<close>. Below \<open>2 ^ 1024\<close>, so for every 128-bit amount, the result is finite
  and an integer, and \<^verbatim>\<open>BigInt\<close> of it is that integer.
\<close>

function ulp :: "nat \<Rightarrow> nat" where
  "ulp v = (if v < 2 ^ 53 then 1 else 2 * ulp (v div 2))"
  by pat_completeness auto
termination
  by (relation "measure (\<lambda>v. v)") auto

declare ulp.simps [simp del]

definition Number :: "nat \<Rightarrow> nat" where
  "Number v =
     (let u = ulp v; q = v div u; r = v mod u
      in if 2 * r < u \<or> (2 * r = u \<and> even q) then q * u else (q + 1) * u)"

text \<open>\<^verbatim>\<open>BigInt(Number(near.attachedDeposit()))\<close>, lines 109 and 209.\<close>

definition BigInt_Number :: "128 word \<Rightarrow> int" where
  "BigInt_Number d = int (Number (unat d))"

text \<open>Decimal digits, as a template literal renders a number and a bigint.\<close>

definition digit :: "nat \<Rightarrow> char" where
  "digit d =
     (if d = 0 then CHR ''0'' else if d = 1 then CHR ''1'' else if d = 2 then CHR ''2''
      else if d = 3 then CHR ''3'' else if d = 4 then CHR ''4'' else if d = 5 then CHR ''5''
      else if d = 6 then CHR ''6'' else if d = 7 then CHR ''7'' else if d = 8 then CHR ''8''
      else CHR ''9'')"

fun toString_nat :: "nat \<Rightarrow> string" where
  "toString_nat n =
     (if n < 10 then [digit n] else toString_nat (n div 10) @ [digit (n mod 10)])"

declare toString_nat.simps [simp del]

definition toString_bigint :: "int \<Rightarrow> string" where
  "toString_bigint i = (if i < 0 then ''-'' @ toString_nat (nat (- i)) else toString_nat (nat i))"

text \<open>
  A field declared without an initialiser (\<^verbatim>\<open>private winner: string;\<close>) is
  \<^verbatim>\<open>undefined\<close> until it is assigned: \<open>None\<close>. A template literal renders it as
  \<^verbatim>\<open>undefined\<close>.
\<close>

definition toString_field :: "string option \<Rightarrow> string" where
  "toString_field f = (case f of None \<Rightarrow> ''undefined'' | Some s \<Rightarrow> s)"

subsection \<open>\<^verbatim>\<open>UnorderedSet\<close>\<close>

text \<open>
  The set of near-sdk-js keeps its elements in insertion order without duplicates:
  \<^verbatim>\<open>contains\<close>, \<^verbatim>\<open>set\<close> (no change when the element is there), \<^verbatim>\<open>len\<close>,
  \<^verbatim>\<open>clear\<close>.
\<close>

type_synonym UnorderedSet = "string list"

definition UnorderedSet_contains :: "UnorderedSet \<Rightarrow> string \<Rightarrow> bool" where
  "UnorderedSet_contains xs x = (x \<in> set xs)"

definition UnorderedSet_set :: "UnorderedSet \<Rightarrow> string \<Rightarrow> UnorderedSet" where
  "UnorderedSet_set xs x = (if x \<in> set xs then xs else xs @ [x])"

definition UnorderedSet_len :: "UnorderedSet \<Rightarrow> nat" where
  "UnorderedSet_len xs = length xs"

definition UnorderedSet_clear :: "UnorderedSet \<Rightarrow> UnorderedSet" where
  "UnorderedSet_clear xs = []"

subsection \<open>The contract's fields and constructor\<close>

record ('fs, 'lot) Contract =
  owner :: string
  winner :: "string option"
  lastPlayed :: "string option"
  active :: bool
  pot :: int
  lottery :: 'lot
  feeStrategy :: 'fs
  players :: UnorderedSet

text \<open>Lines 22 to 34: the field initialisers, then \<^verbatim>\<open>this.owner = owner\<close>.\<close>

definition Contract_new ::
  "('fs, 'st, 'lot, 'ch) modules \<Rightarrow> string \<Rightarrow> ('fs, 'lot) Contract" where
  "Contract_new M own =
     \<lparr> owner = own, winner = None, lastPlayed = None, active = True, pot = ONE_NEAR M,
       lottery = Lottery_default M, feeStrategy = FeeStrategy_default M, players = [] \<rparr>"

subsection \<open>Private methods\<close>

text \<open>Lines 201 to 206.\<close>

definition fee :: "('fs, 'st, 'lot, 'ch) modules \<Rightarrow> ('fs, 'lot) Contract \<Rightarrow> int" where
  "fee M this =
     FeeStrategy_calculate M (feeStrategy this) (UnorderedSet_len (players this)) (ONE_NEAR M)"

text \<open>Lines 208 to 210.\<close>

definition increasePot :: "near_env \<Rightarrow> ('fs, 'lot) Contract \<Rightarrow> ('fs, 'lot) Contract" where
  "increasePot env this = this\<lparr> pot := pot this + BigInt_Number (attachedDeposit env) \<rparr>"

text \<open>Lines 212 to 216.\<close>

definition generateFeeMessage ::
  "('fs, 'st, 'lot, 'ch) modules \<Rightarrow> ('fs, 'lot) Contract \<Rightarrow> int \<Rightarrow> string" where
  "generateFeeMessage M this f =
     ''There are '' @ toString_nat (UnorderedSet_len (players this))
       @ '' players. Playing more than once now costs '' @ asNEAR M f @ '' NEAR''"

text \<open>Lines 218 to 223: the caller must be the account the contract runs on.\<close>

definition assertSelf :: "near_env \<Rightarrow> error option" where
  "assertSelf env =
     (if predecessorAccountId env = currentAccountId env then None
      else Some (Unauthorized ''Only this contract may call this method''))"

text \<open>Lines 50 to 53.\<close>

definition get_pot :: "('fs, 'st, 'lot, 'ch) modules \<Rightarrow> ('fs, 'lot) Contract \<Rightarrow> string" where
  "get_pot M this = asNEAR M (pot this) @ '' NEAR''"

subsection \<open>\<^verbatim>\<open>play\<close>\<close>

text \<open>
  Lines 111 to 120: a signer who has played before pays the fee, which goes to the pot; a
  new signer is enrolled. The result is the failed assertion or the fields after the block.
\<close>

definition play_enroll ::
  "('fs, 'st, 'lot, 'ch) modules \<Rightarrow> near_env \<Rightarrow> ('fs, 'lot) Contract
     \<Rightarrow> error + ('fs, 'lot) Contract" where
  "play_enroll M env this =
     (let signer = signerAccountId env;
          deposit = BigInt_Number (attachedDeposit env)
      in if UnorderedSet_contains (players this) signer then
           (let f = fee M this
            in if deposit \<ge> f then Inr (increasePot env this)
               else Inl (InsufficientFee (generateFeeMessage M this f)))
         else Inr (this\<lparr> players := UnorderedSet_set (players this) signer \<rparr>))"

text \<open>
  Lines 122 to 152: the signer is recorded, the lottery is drawn, and a win names the
  winner and schedules the payout with its confirmation. \<^verbatim>\<open>this.winner\<close> has just been
  assigned when its length is read, so it is not \<^verbatim>\<open>undefined\<close> there.
\<close>

definition play_draw ::
  "('fs, 'st, 'lot, 'ch) modules \<Rightarrow> near_env \<Rightarrow> ('fs, 'lot) Contract
     \<Rightarrow> ('fs, 'lot) Contract \<times> effect list" where
  "play_draw M env this0 =
     (let signer = signerAccountId env;
          this1 = this0\<lparr> lastPlayed := Some signer \<rparr>
      in if Lottery_play M (lottery this1) (randomSeed env) then
           (let this2 = this1\<lparr> winner := Some signer \<rparr>;
                w = toString_field (winner this2);
                logged = [Log (w @ '' won '' @ get_pot M this2 @ ''!'')]
            in if length w > 0 then
                 (this2, logged @
                    [Transfer w (pot this2),
                     Then (currentAccountId env) ''on_payout_complete'' ''{}'' 0 (XCC_GAS M)])
               else (this2, logged))
         else
           (this1, [Log (toString_field (lastPlayed this1)
                           @ '' did not win.  The pot is currently '' @ get_pot M this1)]))"

text \<open>Lines 102 to 153.\<close>

definition play ::
  "('fs, 'st, 'lot, 'ch) modules \<Rightarrow> near_env \<Rightarrow> ('fs, 'lot) Contract
     \<Rightarrow> unit outcome \<times> ('fs, 'lot) Contract \<times> effect list" where
  "play M env this =
     (if \<not> active this then
        (Panic (GameInactive (toString_field (winner this) @ '' won ''
                               @ toString_bigint (pot this) @ ''. Please reset the game.'')),
         this, [])
      else
        (case play_enroll M env this of
           Inl e \<Rightarrow> (Panic e, this, [])
         | Inr this' \<Rightarrow> (let (this'', effs) = play_draw M env this' in (Return (), this'', effs))))"

subsection \<open>Administration and the payout confirmation\<close>

text \<open>Lines 155 to 164.\<close>

definition configure_lottery ::
  "('fs, 'st, 'lot, 'ch) modules \<Rightarrow> near_env \<Rightarrow> 'ch \<Rightarrow> ('fs, 'lot) Contract
     \<Rightarrow> bool outcome \<times> ('fs, 'lot) Contract \<times> effect list" where
  "configure_lottery M env chance this =
     (case assertSelf env of
        Some e \<Rightarrow> (Panic e, this, [])
      | None \<Rightarrow>
          (case Lottery_configure M (lottery this) chance of
             Inl e \<Rightarrow> (Panic e, this, [])
           | Inr l \<Rightarrow> (Return True, this\<lparr> lottery := l \<rparr>, [])))"

text \<open>Lines 166 to 171.\<close>

definition configure_fee ::
  "('fs, 'st, 'lot, 'ch) modules \<Rightarrow> near_env \<Rightarrow> 'st \<Rightarrow> ('fs, 'lot) Contract
     \<Rightarrow> bool outcome \<times> ('fs, 'lot) Contract \<times> effect list" where
  "configure_fee M env strategy this =
     (case assertSelf env of
        Some e \<Rightarrow> (Panic e, this, [])
      | None \<Rightarrow>
          (case FeeStrategy_new M strategy of
             Inl e \<Rightarrow> (Panic e, this, [])
           | Inr s \<Rightarrow> (Return True, this\<lparr> feeStrategy := s \<rparr>, [])))"

text \<open>Lines 173 to 181.\<close>

definition reset ::
  "('fs, 'st, 'lot, 'ch) modules \<Rightarrow> near_env \<Rightarrow> ('fs, 'lot) Contract
     \<Rightarrow> unit outcome \<times> ('fs, 'lot) Contract \<times> effect list" where
  "reset M env this =
     (case assertSelf env of
        Some e \<Rightarrow> (Panic e, this, [])
      | None \<Rightarrow>
          (Return (),
           this\<lparr> players := UnorderedSet_clear (players this), winner := Some '''',
                 lastPlayed := Some '''', pot := ONE_NEAR M, active := True \<rparr>,
           []))"

text \<open>Lines 185 to 190.\<close>

definition on_payout_complete ::
  "near_env \<Rightarrow> ('fs, 'lot) Contract \<Rightarrow> unit outcome \<times> ('fs, 'lot) Contract \<times> effect list" where
  "on_payout_complete env this =
     (case assertSelf env of
        Some e \<Rightarrow> (Panic e, this, [])
      | None \<Rightarrow> (Return (), this\<lparr> active := False \<rparr>, [Log ''game over.'']))"

subsection \<open>Sequences of calls\<close>

text \<open>
  The change methods of the contract. The host stores the fields of a call that returns
  and discards those of a call that panics.
\<close>

datatype ('st, 'ch) call =
    Play
  | Configure_lottery 'ch
  | Configure_fee 'st
  | Reset
  | On_payout_complete

definition commit :: "'s \<Rightarrow> 'a outcome \<times> 's \<times> effect list \<Rightarrow> 's" where
  "commit s r = (case fst r of Panic e \<Rightarrow> s | Return v \<Rightarrow> fst (snd r))"

fun step ::
  "('fs, 'st, 'lot, 'ch) modules \<Rightarrow> ('fs, 'lot) Contract \<Rightarrow> near_env \<times> ('st, 'ch) call
     \<Rightarrow> ('fs, 'lot) Contract" where
  "step M s (env, Play) = commit s (play M env s)"
| "step M s (env, Configure_lottery chance) = commit s (configure_lottery M env chance s)"
| "step M s (env, Configure_fee strategy) = commit s (configure_fee M env strategy s)"
| "step M s (env, Reset) = commit s (reset M env s)"
| "step M s (env, On_payout_complete) = commit s (on_payout_complete env s)"

definition run ::
  "('fs, 'st, 'lot, 'ch) modules \<Rightarrow> ('fs, 'lot) Contract \<Rightarrow> (near_env \<times> ('st, 'ch) call) list
     \<Rightarrow> ('fs, 'lot) Contract" where
  "run M s cs = foldl (step M) s cs"


subsection \<open>A concrete instance\<close>

text \<open>
  Modelled from the spec: \<^verbatim>\<open>fee-strategies.ts\<close> is not among the sources; the spec gives
  the default rule of \<^verbatim>\<open>FeeStrategy.calculate\<close> as quadratic,
  \<^verbatim>\<open>fee = baseUnit * enrolledCount ^ 2\<close>.
\<close>

definition quadratic :: "unit \<Rightarrow> nat \<Rightarrow> int \<Rightarrow> int" where
  "quadratic s n base = base * (int n)\<^sup>2"

text \<open>
  The modules used to run the contract on concrete calls: the base unit \<open>b\<close>, the
  quadratic fee, amounts rendered in the smallest unit, configurations that accept every
  argument, and a lottery that wins exactly when the host's seed is \<^verbatim>\<open>win\<close>.
\<close>

definition test_modules :: "int \<Rightarrow> (unit, unit, unit, unit) modules" where
  "test_modules b =
     \<lparr> ONE_NEAR = b, XCC_GAS = 20000000000000, asNEAR = toString_bigint,
       FeeStrategy_default = (), FeeStrategy_new = Inr, FeeStrategy_calculate = quadratic,
       Lottery_default = (), Lottery_configure = (\<lambda>l c. Inr l),
       Lottery_play = (\<lambda>l seed. seed = ''win'') \<rparr>"

text \<open>One NEAR is \<open>10 ^ 24\<close> of the smallest unit.\<close>

definition near_modules :: "(unit, unit, unit, unit) modules" where
  "near_modules = test_modules 1000000000000000000000000"

text \<open>
  A call on the contract deployed at \<^verbatim>\<open>lottery.near\<close>, signed and sent by \<open>who\<close> with
  deposit \<open>d\<close>, when the host's seed is \<open>seed\<close>.
\<close>

definition call_by :: "string \<Rightarrow> 128 word \<Rightarrow> string \<Rightarrow> near_env" where
  "call_by who d seed =
     \<lparr> signerAccountId = who, predecessorAccountId = who, currentAccountId = ''lottery.near'',
       attachedDeposit = d, randomSeed = seed \<rparr>"

text \<open>The contract as constructed for \<^verbatim>\<open>owner.near\<close>, and after a first, losing play.\<close>

definition game0 :: "(unit, unit) Contract" where
  "game0 = Contract_new near_modules ''owner.near''"

definition game1 :: "(unit, unit) Contract" where
  "game1 = run near_modules game0 [(call_by ''alice.near'' 0 ''lose'', Play)]"

text \<open>
  The contract after a first, winning play whose payout is pending, and after the
  confirmation of that payout.
\<close>

definition game_won :: "(unit, unit) Contract" where
  "game_won = run near_modules game0 [(call_by ''alice.near'' 0 ''win'', Play)]"

definition game_over :: "(unit, unit) Contract" where
  "game_over = run near_modules game_won [(call_by ''lottery.near'' 0 [], On_payout_complete)]"

text \<open>The contract after \<^verbatim>\<open>alice.near\<close> has played again, attaching two NEAR, and lost.\<close>

definition game_paid :: "(unit, unit) Contract" where
  "game_paid =
     run near_modules game1 [(call_by ''alice.near'' 2000000000000000000000000 ''lose'', Play)]"

section \<open>Unfolding the recursive functions on concrete arguments\<close>

lemma ulp_below: "v < 2 ^ 53 \<Longrightarrow> ulp v = 1"
  by (simp add: ulp.simps)

lemma ulp_above: "\<not> v < 2 ^ 53 \<Longrightarrow> ulp v = 2 * ulp (v div 2)"
  by (subst ulp.simps) simp

lemma toString_nat_digit: "n < 10 \<Longrightarrow> toString_nat n = [digit n]"
  by (simp add: toString_nat.simps)

lemma toString_nat_more:
  "\<not> n < 10 \<Longrightarrow> toString_nat n = toString_nat (n div 10) @ [digit (n mod 10)]"
  by (subst toString_nat.simps) simp

lemma BigInt_Number_nonneg: "0 \<le> BigInt_Number d"
  by (simp add: BigInt_Number_def)

section \<open>\<^verbatim>\<open>Number\<close> rounds to a nearest double\<close>

text \<open>
  The result is a multiple of the spacing with a significand of at most 53 bits, and no
  further from the argument than half the spacing.
\<close>

lemma ulp_pos: "0 < ulp v"
  by (induction v rule: ulp.induct) (subst ulp.simps, simp)

lemma ulp_significand: "v div ulp v < 2 ^ 53"
proof (induction v rule: ulp.induct)
  case (1 v)
  show ?case
  proof (cases "v < 2 ^ 53")
    case True
    then show ?thesis by (simp add: ulp_below)
  next
    case False
    with 1 have "v div 2 div ulp (v div 2) < 2 ^ 53" by simp
    then show ?thesis using False by (simp add: ulp_above div_mult2_eq)
  qed
qed

lemma Number_multiple: "ulp v dvd Number v"
  by (simp add: Number_def Let_def)

lemma Number_significand: "Number v div ulp v \<le> 2 ^ 53"
proof -
  have "Number v = (v div ulp v) * ulp v \<or> Number v = (v div ulp v + 1) * ulp v"
    by (simp add: Number_def Let_def)
  then have "Number v div ulp v \<le> v div ulp v + 1"
    using ulp_pos [of v] by auto
  with ulp_significand [of v] show ?thesis by simp
qed

lemma Number_nearest: "2 * \<bar>int (Number v) - int v\<bar> \<le> int (ulp v)"
proof -
  define u q r where "u = ulp v" and "q = v div u" and "r = v mod u"
  have v: "v = q * u + r" and r: "r < u"
    using ulp_pos [of v] by (simp_all add: u_def q_def r_def)
  show ?thesis
  proof (cases "2 * r < u \<or> (2 * r = u \<and> even q)")
    case True
    then have "Number v = q * u"
      unfolding Number_def Let_def u_def q_def r_def by auto
    with v True show ?thesis unfolding u_def [symmetric] by auto
  next
    case False
    then have "Number v = (q + 1) * u"
      unfolding Number_def Let_def u_def q_def r_def by auto
    with v False r show ?thesis unfolding u_def [symmetric] by (auto simp: algebra_simps)
  qed
qed

section \<open>The branches of \<^verbatim>\<open>play\<close> and of the self check\<close>

lemma play_inactive:
  "\<not> active this \<Longrightarrow>
     play M env this =
       (Panic (GameInactive (toString_field (winner this) @ '' won ''
                              @ toString_bigint (pot this) @ ''. Please reset the game.'')),
        this, [])"
  by (simp add: play_def)

lemma play_active:
  "active this \<Longrightarrow>
     play M env this =
       (case play_enroll M env this of
          Inl e \<Rightarrow> (Panic e, this, [])
        | Inr this' \<Rightarrow> (Return (), fst (play_draw M env this'), snd (play_draw M env this')))"
  by (simp add: play_def split: sum.splits prod.splits)

lemma play_enroll_new:
  "signerAccountId env \<notin> set (players this) \<Longrightarrow>
     play_enroll M env this = Inr (this\<lparr> players := players this @ [signerAccountId env] \<rparr>)"
  by (simp add: play_enroll_def UnorderedSet_contains_def UnorderedSet_set_def)

lemma play_enroll_paid:
  "signerAccountId env \<in> set (players this) \<Longrightarrow>
   fee M this \<le> BigInt_Number (attachedDeposit env) \<Longrightarrow>
     play_enroll M env this = Inr (this\<lparr> pot := pot this + BigInt_Number (attachedDeposit env) \<rparr>)"
  by (simp add: play_enroll_def UnorderedSet_contains_def increasePot_def)

lemma play_enroll_short:
  "signerAccountId env \<in> set (players this) \<Longrightarrow>
   BigInt_Number (attachedDeposit env) < fee M this \<Longrightarrow>
     play_enroll M env this = Inl (InsufficientFee (generateFeeMessage M this (fee M this)))"
  by (simp add: play_enroll_def UnorderedSet_contains_def)

lemma play_enroll_Inl:
  "play_enroll M env this = Inl e \<Longrightarrow>
     e = InsufficientFee (generateFeeMessage M this (fee M this))
     \<and> signerAccountId env \<in> set (players this)
     \<and> BigInt_Number (attachedDeposit env) < fee M this"
  by (auto simp: play_enroll_def UnorderedSet_contains_def Let_def split: if_splits)

lemma play_enroll_Inr:
  "play_enroll M env this = Inr this' \<Longrightarrow>
     this' = (if signerAccountId env \<in> set (players this)
              then this\<lparr> pot := pot this + BigInt_Number (attachedDeposit env) \<rparr>
              else this\<lparr> players := players this @ [signerAccountId env] \<rparr>)"
  by (auto simp: play_enroll_def UnorderedSet_contains_def UnorderedSet_set_def increasePot_def
        Let_def split: if_splits)

lemma play_draw_fields:
  "fst (play_draw M env this) =
     (if Lottery_play M (lottery this) (randomSeed env)
      then this\<lparr> lastPlayed := Some (signerAccountId env), winner := Some (signerAccountId env) \<rparr>
      else this\<lparr> lastPlayed := Some (signerAccountId env) \<rparr>)"
  by (simp add: play_draw_def Let_def)

lemma play_draw_win:
  "Lottery_play M (lottery this) (randomSeed env) \<Longrightarrow> signerAccountId env \<noteq> [] \<Longrightarrow>
     snd (play_draw M env this) =
       [Log (signerAccountId env @ '' won '' @ asNEAR M (pot this) @ '' NEAR'' @ ''!''),
        Transfer (signerAccountId env) (pot this),
        Then (currentAccountId env) ''on_payout_complete'' ''{}'' 0 (XCC_GAS M)]"
  by (simp add: play_draw_def Let_def toString_field_def get_pot_def)

lemma play_Panic:
  "fst (play M env this) = Panic e \<Longrightarrow> snd (play M env this) = (this, [])"
  by (cases "active this") (auto simp: play_inactive play_active split: sum.splits)

lemma assertSelf_None: "assertSelf env = None \<longleftrightarrow> predecessorAccountId env = currentAccountId env"
  by (simp add: assertSelf_def)

lemma assertSelf_Some:
  "predecessorAccountId env \<noteq> currentAccountId env \<Longrightarrow>
     assertSelf env = Some (Unauthorized ''Only this contract may call this method'')"
  by (simp add: assertSelf_def)

section \<open>The concrete games\<close>

lemmas model_defs =
  play_def play_enroll_def play_draw_def configure_lottery_def configure_fee_def reset_def
  on_payout_complete_def assertSelf_def fee_def increasePot_def generateFeeMessage_def
  get_pot_def Contract_new_def UnorderedSet_contains_def UnorderedSet_set_def
  UnorderedSet_len_def UnorderedSet_clear_def commit_def run_def toString_field_def
  BigInt_Number_def Number_def ulp_below ulp_above Let_def

lemmas instance_defs =
  test_modules_def near_modules_def quadratic_def call_by_def game0_def

lemma Number_small: "v < 2 ^ 53 \<Longrightarrow> Number v = v"
  by (simp add: Number_def ulp_below)

lemma BigInt_Number_exact: "unat d < 2 ^ 53 \<Longrightarrow> BigInt_Number d = uint d"
  by (simp add: BigInt_Number_def Number_small)

lemma Number_one_near: "Number 1000000000000000000000000 = 999999999999999983222784"
  by (simp add: Number_def ulp_below ulp_above)

lemma Number_two_near: "Number 2000000000000000000000000 = 1999999999999999966445568"
  by (simp add: Number_def ulp_below ulp_above)

lemma Number_below_double: "Number 999999999999999983222783 = 999999999999999983222784"
  by (simp add: Number_def ulp_below ulp_above)

lemma toString_one_near: "toString_bigint 1000000000000000000000000 = ''1000000000000000000000000''"
  by (simp add: toString_bigint_def toString_nat_digit toString_nat_more digit_def)

lemma game0_fields:
  "game0 = \<lparr> owner = ''owner.near'', winner = None, lastPlayed = None,
              active = True, pot = 1000000000000000000000000, lottery = (),
              feeStrategy = (), players = [] \<rparr>"
  by (simp add: model_defs instance_defs)

lemma game1_fields:
  "game1 = \<lparr> owner = ''owner.near'', winner = None, lastPlayed = Some ''alice.near'',
              active = True, pot = 1000000000000000000000000, lottery = (),
              feeStrategy = (), players = [''alice.near''] \<rparr>"
  by (simp add: game1_def model_defs instance_defs)

lemma game_won_fields:
  "game_won = \<lparr> owner = ''owner.near'', winner = Some ''alice.near'',
                 lastPlayed = Some ''alice.near'', active = True,
                 pot = 1000000000000000000000000, lottery = (), feeStrategy = (),
                 players = [''alice.near''] \<rparr>"
  by (simp add: game_won_def game0_fields model_defs instance_defs)

lemma game_over_fields:
  "game_over = \<lparr> owner = ''owner.near'', winner = Some ''alice.near'',
                  lastPlayed = Some ''alice.near'', active = False,
                  pot = 1000000000000000000000000, lottery = (), feeStrategy = (),
                  players = [''alice.near''] \<rparr>"
  by (simp add: game_over_def game_won_fields model_defs instance_defs)

lemma game_paid_fields:
  "game_paid = \<lparr> owner = ''owner.near'', winner = None,
                  lastPlayed = Some ''alice.near'', active = True,
                  pot = 2999999999999999966445568, lottery = (), feeStrategy = (),
                  players = [''alice.near''] \<rparr>"
  by (simp add: game_paid_def game1_fields play_def play_enroll_def play_draw_def fee_def
        increasePot_def UnorderedSet_contains_def UnorderedSet_len_def commit_def run_def
        BigInt_Number_def Number_two_near Let_def instance_defs)

section \<open>Single calls and sequences of calls\<close>

lemma play_Return:
  assumes "fst (play M env this) = Return u"
  shows "active this"
    and "\<exists>this'. play_enroll M env this = Inr this'
           \<and> play M env this = (Return (), fst (play_draw M env this'), snd (play_draw M env this'))"
proof -
  show a: "active this"
    using assms by (cases "active this") (auto simp: play_inactive)
  show "\<exists>this'. play_enroll M env this = Inr this'
           \<and> play M env this = (Return (), fst (play_draw M env this'), snd (play_draw M env this'))"
    using assms a by (cases "play_enroll M env this") (auto simp: play_active)
qed

lemma play_enroll_frame:
  "play_enroll M env this = Inr this' \<Longrightarrow>
     lottery this' = lottery this \<and> active this' = active this \<and> winner this' = winner this"
  by (auto dest!: play_enroll_Inr split: if_splits)

lemma play_Return_pot:
  "fst (play M env this) = Return u \<Longrightarrow>
     pot (fst (snd (play M env this))) =
       (if signerAccountId env \<in> set (players this)
        then pot this + BigInt_Number (attachedDeposit env) else pot this)"
proof -
  assume r: "fst (play M env this) = Return u"
  then have a: "active this"
    by (cases "active this") (auto simp: play_inactive)
  from r a obtain this' where e: "play_enroll M env this = Inr this'"
    by (auto simp: play_active split: sum.splits)
  show ?thesis
    using play_enroll_Inr [OF e] a e by (simp add: play_active play_draw_fields)
qed

lemma play_enrolled:
  assumes "active this" and "signerAccountId env \<in> set (players this)"
  shows "(fst (play M env this) = Panic (InsufficientFee (generateFeeMessage M this (fee M this))))
           = (BigInt_Number (attachedDeposit env) < fee M this)"
proof (cases "BigInt_Number (attachedDeposit env) < fee M this")
  case True
  with assms show ?thesis by (simp add: play_active play_enroll_short)
next
  case False
  then have "fee M this \<le> BigInt_Number (attachedDeposit env)" by simp
  with assms False show ?thesis by (simp add: play_active play_enroll_paid)
qed

lemma step_Play_pot: "pot this \<le> pot (step M this (env, Play))"
proof (cases "fst (play M env this)")
  case (Panic e)
  then show ?thesis by (simp add: commit_def)
next
  case (Return u)
  then have a: "active this"
    by (cases "active this") (auto simp: play_inactive)
  from Return a obtain this' where e: "play_enroll M env this = Inr this'"
    by (auto simp: play_active split: sum.splits)
  have "pot this \<le> pot this'"
    using play_enroll_Inr [OF e] BigInt_Number_nonneg [of "attachedDeposit env"]
    by (simp split: if_splits)
  then show ?thesis
    using Return a e by (simp add: commit_def play_active play_draw_fields)
qed

lemma step_Play_active: "active (step M this (env, Play)) = active this"
proof (cases "active this")
  case False
  then show ?thesis by (simp add: commit_def play_inactive)
next
  case True
  then show ?thesis
    by (cases "play_enroll M env this")
       (auto simp: commit_def play_active play_draw_fields dest!: play_enroll_Inr split: if_splits)
qed

lemma step_Play_inactive: "\<not> active this \<Longrightarrow> step M this (env, Play) = this"
  by (simp add: commit_def play_inactive)

lemma step_On_payout_complete:
  "step M this (env, On_payout_complete) =
     (if predecessorAccountId env = currentAccountId env then this\<lparr> active := False \<rparr> else this)"
  by (simp add: commit_def on_payout_complete_def assertSelf_def)

lemma step_active_falls:
  "active this \<Longrightarrow> \<not> active (step M this (env, c)) \<Longrightarrow>
     c = On_payout_complete \<and> predecessorAccountId env = currentAccountId env"
proof (cases c)
  case Play
  assume "active this" "\<not> active (step M this (env, c))"
  with Play show ?thesis using step_Play_active [of M this env] by simp
next
  case (Configure_lottery chance)
  assume "active this" "\<not> active (step M this (env, c))"
  with Configure_lottery show ?thesis
    by (auto simp: commit_def configure_lottery_def split: option.splits sum.splits)
next
  case (Configure_fee strategy)
  assume "active this" "\<not> active (step M this (env, c))"
  with Configure_fee show ?thesis
    by (auto simp: commit_def configure_fee_def split: option.splits sum.splits)
next
  case Reset
  assume "active this" "\<not> active (step M this (env, c))"
  with Reset show ?thesis
    by (auto simp: commit_def reset_def split: option.splits)
next
  case On_payout_complete
  assume "active this" "\<not> active (step M this (env, c))"
  with On_payout_complete show ?thesis
    by (auto simp: commit_def on_payout_complete_def assertSelf_def split: option.splits if_splits)
qed

lemma step_pot_falls:
  "pot (step M this (env, c)) < pot this \<Longrightarrow>
     c = Reset \<and> predecessorAccountId env = currentAccountId env
     \<and> pot (step M this (env, c)) = ONE_NEAR M"
proof (cases c)
  case Play
  assume "pot (step M this (env, c)) < pot this"
  with Play show ?thesis using step_Play_pot [of this M env] by simp
next
  case (Configure_lottery chance)
  assume "pot (step M this (env, c)) < pot this"
  with Configure_lottery show ?thesis
    by (auto simp: commit_def configure_lottery_def split: option.splits sum.splits)
next
  case (Configure_fee strategy)
  assume "pot (step M this (env, c)) < pot this"
  with Configure_fee show ?thesis
    by (auto simp: commit_def configure_fee_def split: option.splits sum.splits)
next
  case Reset
  assume "pot (step M this (env, c)) < pot this"
  with Reset show ?thesis
    by (auto simp: commit_def reset_def assertSelf_def split: option.splits if_splits)
next
  case On_payout_complete
  assume "pot (step M this (env, c)) < pot this"
  with On_payout_complete show ?thesis
    by (auto simp: commit_def on_payout_complete_def split: option.splits)
qed

lemma step_pot_base:
  assumes "ONE_NEAR M \<le> pot this"
  shows "ONE_NEAR M \<le> pot (step M this ec)"
proof (cases "pot (step M this ec) < pot this")
  case True
  then show ?thesis using step_pot_falls [of M this "fst ec" "snd ec"] by simp
next
  case False
  with assms show ?thesis by simp
qed

lemma run_pot_base: "ONE_NEAR M \<le> pot this \<Longrightarrow> ONE_NEAR M \<le> pot (run M this cs)"
  unfolding run_def
proof (induction cs arbitrary: this)
  case Nil
  then show ?case by simp
next
  case (Cons ec cs)
  from Cons.prems have "ONE_NEAR M \<le> pot (step M this ec)"
    by (rule step_pot_base)
  then show ?case using Cons.IH by simp
qed

lemma run_inactive:
  "\<not> active this \<Longrightarrow> \<forall>ec \<in> set cs. snd ec = Play \<or> snd ec = On_payout_complete \<Longrightarrow>
     winner (run M this cs) = winner this \<and> \<not> active (run M this cs)"
  unfolding run_def
proof (induction cs arbitrary: this)
  case Nil
  then show ?case by simp
next
  case (Cons ec cs)
  obtain env c where ec: "ec = (env, c)" by (cases ec)
  from Cons.prems ec have c: "c = Play \<or> c = On_payout_complete" by simp
  have s: "winner (step M this ec) = winner this \<and> \<not> active (step M this ec)"
    using c Cons.prems(1) ec step_Play_inactive [of this M env] step_On_payout_complete [of M this env]
    by (auto split: if_splits)
  from Cons.prems have "\<forall>ec \<in> set cs. snd ec = Play \<or> snd ec = On_payout_complete" by simp
  with s Cons.IH [of "step M this ec"] show ?case by simp
qed

section \<open>The claims\<close>

subsection \<open>C1: who may administer\<close>

text \<open>
  C1 says that \<^verbatim>\<open>reset\<close>, \<^verbatim>\<open>configure_lottery\<close> and \<^verbatim>\<open>configure_fee\<close> fail with
  \<^verbatim>\<open>Unauthorized\<close> for every caller that is not the owner and succeed for the owner.
  The three methods call \<^verbatim>\<open>assertSelf\<close>, which compares the caller with the account the
  contract runs on and never reads \<^verbatim>\<open>this.owner\<close>. In the game constructed for
  \<^verbatim>\<open>owner.near\<close> on \<^verbatim>\<open>lottery.near\<close>, the owner's \<^verbatim>\<open>reset\<close> is refused and the
  contract's own \<^verbatim>\<open>reset\<close>, which does not come from the owner, returns.
\<close>

theorem owner_not_authorized_counterexample:
  "predecessorAccountId (call_by ''owner.near'' 0 []) = owner game0
   \<and> reset near_modules (call_by ''owner.near'' 0 []) game0 =
       (Panic (Unauthorized ''Only this contract may call this method''), game0, [])
   \<and> predecessorAccountId (call_by ''lottery.near'' 0 []) \<noteq> owner game0
   \<and> fst (reset near_modules (call_by ''lottery.near'' 0 []) game0) = Return ()"
  by (simp add: game0_fields call_by_def reset_def assertSelf_def)

text \<open>
  C1, amended: for every caller other than the contract's own account (the predecessor
  differs from the current account), each of \<^verbatim>\<open>reset\<close>, \<^verbatim>\<open>configure_lottery\<close> and
  \<^verbatim>\<open>configure_fee\<close> fails with \<^verbatim>\<open>Unauthorized\<close> and leaves every field as it was, the
  owner included among such callers; called by the contract's own account, \<^verbatim>\<open>reset\<close>
  returns, and \<^verbatim>\<open>configure_lottery\<close> and \<^verbatim>\<open>configure_fee\<close> return \<^verbatim>\<open>true\<close> and store
  the new configuration whenever \<^verbatim>\<open>Lottery.configure\<close> and the \<^verbatim>\<open>FeeStrategy\<close>
  constructor accept their argument.
\<close>

theorem admin_requires_contract_account:
  "(predecessorAccountId env \<noteq> currentAccountId env \<longrightarrow>
      reset M env this =
        (Panic (Unauthorized ''Only this contract may call this method''), this, [])
      \<and> configure_lottery M env chance this =
        (Panic (Unauthorized ''Only this contract may call this method''), this, [])
      \<and> configure_fee M env strategy this =
        (Panic (Unauthorized ''Only this contract may call this method''), this, []))
   \<and> (predecessorAccountId env = currentAccountId env \<longrightarrow>
        fst (reset M env this) = Return ()
        \<and> (\<forall>l. Lottery_configure M (lottery this) chance = Inr l \<longrightarrow>
              configure_lottery M env chance this = (Return True, this\<lparr> lottery := l \<rparr>, []))
        \<and> (\<forall>s. FeeStrategy_new M strategy = Inr s \<longrightarrow>
              configure_fee M env strategy this = (Return True, this\<lparr> feeStrategy := s \<rparr>, [])))"
  by (simp add: reset_def configure_lottery_def configure_fee_def assertSelf_def)

text \<open>
  At \<^verbatim>\<open>lottery.near\<close>: the owner is refused by all three methods, the contract itself is
  served by all three.
\<close>

theorem admin_requires_contract_account_witness:
  "predecessorAccountId (call_by ''owner.near'' 0 []) \<noteq> currentAccountId (call_by ''owner.near'' 0 [])
   \<and> reset near_modules (call_by ''owner.near'' 0 []) game1 =
       (Panic (Unauthorized ''Only this contract may call this method''), game1, [])
   \<and> configure_lottery near_modules (call_by ''owner.near'' 0 []) () game1 =
       (Panic (Unauthorized ''Only this contract may call this method''), game1, [])
   \<and> configure_fee near_modules (call_by ''owner.near'' 0 []) () game1 =
       (Panic (Unauthorized ''Only this contract may call this method''), game1, [])
   \<and> predecessorAccountId (call_by ''lottery.near'' 0 []) = currentAccountId (call_by ''lottery.near'' 0 [])
   \<and> fst (reset near_modules (call_by ''lottery.near'' 0 []) game1) = Return ()
   \<and> configure_lottery near_modules (call_by ''lottery.near'' 0 []) () game1 =
       (Return True, game1\<lparr> lottery := () \<rparr>, [])
   \<and> configure_fee near_modules (call_by ''lottery.near'' 0 []) () game1 =
       (Return True, game1\<lparr> feeStrategy := () \<rparr>, [])"
  using admin_requires_contract_account
          [where env = "call_by ''owner.near'' 0 []" and M = near_modules and this = game1
             and chance = "()" and strategy = "()"]
        admin_requires_contract_account
          [where env = "call_by ''lottery.near'' 0 []" and M = near_modules and this = game1
             and chance = "()" and strategy = "()"]
  by (simp add: call_by_def near_modules_def test_modules_def)

subsection \<open>C2: how often the winner is assigned\<close>

text \<open>
  C2 says that within one epoch no later \<^verbatim>\<open>play\<close> changes a winner already set. A win
  leaves the game active until the payout is confirmed, and \<^verbatim>\<open>play\<close> assigns
  \<^verbatim>\<open>this.winner\<close> on every winning draw: after \<^verbatim>\<open>alice.near\<close> has won, a winning play of
  \<^verbatim>\<open>bob.near\<close> before the confirmation replaces her.
\<close>

theorem winner_reassigned_counterexample:
  "winner (run near_modules game0 [(call_by ''alice.near'' 0 ''win'', Play)]) = Some ''alice.near''
   \<and> winner (run near_modules game0
        [(call_by ''alice.near'' 0 ''win'', Play), (call_by ''bob.near'' 0 ''win'', Play)])
      = Some ''bob.near''"
  by (simp add: game0_fields model_defs instance_defs)

text \<open>
  C2, amended: within one epoch a \<^verbatim>\<open>play\<close> that returns sets \<^verbatim>\<open>winner\<close> to its caller
  when its draw wins, also when a winner is already set, and leaves \<^verbatim>\<open>winner\<close> as it was
  when its draw loses; once \<^verbatim>\<open>on_payout_complete\<close> has made the game inactive, no
  sequence of \<^verbatim>\<open>play\<close> and \<^verbatim>\<open>on_payout_complete\<close> calls changes \<^verbatim>\<open>winner\<close>.
\<close>

theorem winner_fixed_after_confirmation:
  "(fst (play M env this) = Return () \<longrightarrow>
      winner (fst (snd (play M env this))) =
        (if Lottery_play M (lottery this) (randomSeed env) then Some (signerAccountId env)
         else winner this))
   \<and> (\<not> active this \<and> (\<forall>ec \<in> set cs. snd ec = Play \<or> snd ec = On_payout_complete) \<longrightarrow>
        winner (run M this cs) = winner this)"
proof (intro conjI impI)
  assume r: "fst (play M env this) = Return ()"
  then obtain this' where e: "play_enroll M env this = Inr this'"
    and p: "play M env this = (Return (), fst (play_draw M env this'), snd (play_draw M env this'))"
    using play_Return(2) by blast
  from e have "lottery this' = lottery this" "winner this' = winner this"
    by (simp_all add: play_enroll_frame)
  then show "winner (fst (snd (play M env this))) =
        (if Lottery_play M (lottery this) (randomSeed env) then Some (signerAccountId env)
         else winner this)"
    by (simp add: p play_draw_fields)
next
  assume "\<not> active this \<and> (\<forall>ec \<in> set cs. snd ec = Play \<or> snd ec = On_payout_complete)"
  then show "winner (run M this cs) = winner this"
    by (simp add: run_inactive)
qed

text \<open>
  A second win while the payout of \<^verbatim>\<open>alice.near\<close> is pending, and three further calls
  after its confirmation.
\<close>

theorem winner_fixed_after_confirmation_witness:
  "fst (play near_modules (call_by ''bob.near'' 0 ''win'') game_won) = Return ()
   \<and> winner (fst (snd (play near_modules (call_by ''bob.near'' 0 ''win'') game_won))) = Some ''bob.near''
   \<and> \<not> active game_over
   \<and> winner (run near_modules game_over
        [(call_by ''bob.near'' 0 ''win'', Play), (call_by ''lottery.near'' 0 [], On_payout_complete),
         (call_by ''carol.near'' 0 ''win'', Play)]) = Some ''alice.near''"
proof -
  have r: "fst (play near_modules (call_by ''bob.near'' 0 ''win'') game_won) = Return ()"
    by (simp add: game_won_fields model_defs instance_defs)
  have i: "\<not> active game_over"
    by (simp add: game_over_fields)
  show ?thesis
    using r i
      winner_fixed_after_confirmation
        [where M = near_modules and env = "call_by ''bob.near'' 0 ''win''" and this = game_won
           and cs = "[]"]
      winner_fixed_after_confirmation
        [where M = near_modules and env = "call_by ''bob.near'' 0 ''win''" and this = game_over
           and cs = "[(call_by ''bob.near'' 0 ''win'', Play),
                      (call_by ''lottery.near'' 0 [], On_payout_complete),
                      (call_by ''carol.near'' 0 ''win'', Play)]"]
    by (simp add: call_by_def near_modules_def test_modules_def game_over_fields)
qed

subsection \<open>C3: the fee check of a returning player\<close>

text \<open>
  C3 says that the play of an enrolled caller fails with \<^verbatim>\<open>InsufficientFee\<close> exactly when
  the attached value is below \<^verbatim>\<open>FeeStrategy.calculate(players.len(), ONE_NEAR)\<close>. The
  code compares \<^verbatim>\<open>BigInt(Number(near.attachedDeposit()))\<close> with the fee, and the
  conversion to a double rounds: with one player enrolled, the quadratic fee and one NEAR
  as the base unit, the fee is \<open>10 ^ 24\<close>, and a deposit of exactly \<open>10 ^ 24\<close> is read as
  \<open>999999999999999983222784\<close> and refused.
\<close>

theorem exact_fee_is_rejected:
  "signerAccountId (call_by ''alice.near'' 1000000000000000000000000 ''lose'') \<in> set (players game1)
   \<and> active game1
   \<and> fee near_modules game1 = 1000000000000000000000000
   \<and> uint (attachedDeposit (call_by ''alice.near'' 1000000000000000000000000 ''lose''))
       = 1000000000000000000000000
   \<and> play near_modules (call_by ''alice.near'' 1000000000000000000000000 ''lose'') game1 =
       (Panic (InsufficientFee (generateFeeMessage near_modules game1 (fee near_modules game1))),
        game1, [])"
  by (simp add: game1_fields call_by_def play_def play_enroll_def fee_def near_modules_def
        test_modules_def quadratic_def UnorderedSet_contains_def UnorderedSet_len_def
        BigInt_Number_def Number_one_near Let_def)

text \<open>
  What the check decides in general, and the other direction: were the base unit the double
  nearest to \<open>10 ^ 24\<close>, a deposit one below the fee would be read as the fee and accepted.
\<close>

lemma under_fee_is_accepted:
  "fee (test_modules 999999999999999983222784)
       (run (test_modules 999999999999999983222784)
            (Contract_new (test_modules 999999999999999983222784) ''owner.near'')
            [(call_by ''alice.near'' 0 ''lose'', Play)])
     = 999999999999999983222784
   \<and> uint (attachedDeposit (call_by ''alice.near'' 999999999999999983222783 ''lose''))
       = 999999999999999983222783
   \<and> fst (play (test_modules 999999999999999983222784)
             (call_by ''alice.near'' 999999999999999983222783 ''lose'')
             (run (test_modules 999999999999999983222784)
                  (Contract_new (test_modules 999999999999999983222784) ''owner.near'')
                  [(call_by ''alice.near'' 0 ''lose'', Play)]))
       = Return ()"
  by (simp add: play_def play_enroll_def play_draw_def fee_def increasePot_def Contract_new_def
        UnorderedSet_contains_def UnorderedSet_set_def UnorderedSet_len_def commit_def run_def
        BigInt_Number_def Number_below_double Number_small Let_def test_modules_def
        quadratic_def call_by_def)

subsection \<open>C4: the first play is free\<close>

text \<open>
  C4 says that for every caller not yet in \<^verbatim>\<open>players\<close> a \<^verbatim>\<open>play\<close> call inserts that
  caller into \<^verbatim>\<open>players\<close>. The assertion on \<^verbatim>\<open>this.active\<close> (lines 104 to 107) comes
  before the enrolment (line 119): in the game that is over after the win of
  \<^verbatim>\<open>alice.near\<close>, the first play of \<^verbatim>\<open>bob.near\<close> fails with \<^verbatim>\<open>GameInactive\<close> and he
  is not in \<^verbatim>\<open>players\<close>, neither in the fields at the failure nor in those the host keeps.
\<close>

theorem first_play_on_inactive_game_counterexample:
  "signerAccountId (call_by ''bob.near'' 0 ''lose'') \<notin> set (players game_over)
   \<and> play near_modules (call_by ''bob.near'' 0 ''lose'') game_over =
       (Panic (GameInactive ''alice.near won 1000000000000000000000000. Please reset the game.''),
        game_over, [])
   \<and> \<not> UnorderedSet_contains
         (players (fst (snd (play near_modules (call_by ''bob.near'' 0 ''lose'') game_over))))
         (signerAccountId (call_by ''bob.near'' 0 ''lose''))
   \<and> \<not> UnorderedSet_contains
         (players (step near_modules game_over (call_by ''bob.near'' 0 ''lose'', Play)))
         (signerAccountId (call_by ''bob.near'' 0 ''lose''))"
  by (simp add: game_over_fields call_by_def play_def commit_def toString_field_def
        toString_one_near UnorderedSet_contains_def)

text \<open>
  C4, amended: for every caller not yet in \<^verbatim>\<open>players\<close>, \<^verbatim>\<open>play\<close> never fails with
  \<^verbatim>\<open>InsufficientFee\<close> and leaves \<^verbatim>\<open>pot\<close> unchanged whatever is attached; while the
  game is active the call returns and inserts the caller into \<^verbatim>\<open>players\<close>, which
  afterwards holds the callers it held before and this one; while the game is inactive the
  call fails with \<^verbatim>\<open>GameInactive\<close> and \<^verbatim>\<open>players\<close> is as it was.
\<close>

theorem first_play_is_free:
  "signerAccountId env \<notin> set (players this) \<Longrightarrow>
     (\<forall>m. fst (play M env this) \<noteq> Panic (InsufficientFee m))
     \<and> pot (fst (snd (play M env this))) = pot this
     \<and> (active this \<longrightarrow>
          fst (play M env this) = Return ()
          \<and> UnorderedSet_contains (players (fst (snd (play M env this)))) (signerAccountId env)
          \<and> set (players (fst (snd (play M env this)))) = insert (signerAccountId env) (set (players this)))
     \<and> (\<not> active this \<longrightarrow>
          (\<exists>m. fst (play M env this) = Panic (GameInactive m))
          \<and> players (fst (snd (play M env this))) = players this)"
  by (cases "active this")
     (simp_all add: play_inactive play_active play_enroll_new play_draw_fields
        UnorderedSet_contains_def)

text \<open>
  \<^verbatim>\<open>bob.near\<close> joins the game of \<^verbatim>\<open>alice.near\<close>, and the five units he attaches do not
  reach the pot; he tries the same on the game that is over.
\<close>

theorem first_play_is_free_witness:
  "signerAccountId (call_by ''bob.near'' 5 ''lose'') \<notin> set (players game1)
   \<and> active game1
   \<and> fst (play near_modules (call_by ''bob.near'' 5 ''lose'') game1) = Return ()
   \<and> pot (fst (snd (play near_modules (call_by ''bob.near'' 5 ''lose'') game1))) = pot game1
   \<and> set (players (fst (snd (play near_modules (call_by ''bob.near'' 5 ''lose'') game1))))
       = {''alice.near'', ''bob.near''}
   \<and> signerAccountId (call_by ''bob.near'' 5 ''lose'') \<notin> set (players game_over)
   \<and> \<not> active game_over
   \<and> players (fst (snd (play near_modules (call_by ''bob.near'' 5 ''lose'') game_over)))
       = [''alice.near'']"
proof -
  have n: "signerAccountId (call_by ''bob.near'' 5 ''lose'') \<notin> set (players game1)"
    by (simp add: game1_fields call_by_def)
  have a: "active game1"
    by (simp add: game1_fields)
  have n': "signerAccountId (call_by ''bob.near'' 5 ''lose'') \<notin> set (players game_over)"
    by (simp add: game_over_fields call_by_def)
  have i: "\<not> active game_over"
    by (simp add: game_over_fields)
  show ?thesis
    using n a n' i first_play_is_free [OF n, where M = near_modules]
      first_play_is_free [OF n', where M = near_modules]
    by (auto simp: game1_fields game_over_fields call_by_def)
qed

subsection \<open>C5: a winning play\<close>

text \<open>
  C5: a \<^verbatim>\<open>play\<close> that returns and whose draw wins sets \<^verbatim>\<open>winner\<close> to the caller and
  leaves the game active; when the caller's name is not empty it logs the win and schedules
  the transfer of the whole pot, as it is after this play, to the winner, followed by the
  call of \<^verbatim>\<open>on_payout_complete\<close> on the contract's own account. Once
  \<^verbatim>\<open>on_payout_complete\<close> has run for the contract itself the game is inactive, and every
  further \<^verbatim>\<open>play\<close> fails with \<^verbatim>\<open>GameInactive\<close>.
\<close>

theorem winning_play_schedules_payout:
  assumes "fst (play M env this) = Return ()"
    and "Lottery_play M (lottery this) (randomSeed env)"
  shows "winner (fst (snd (play M env this))) = Some (signerAccountId env)
     \<and> active (fst (snd (play M env this)))
     \<and> (signerAccountId env \<noteq> [] \<longrightarrow>
          snd (snd (play M env this)) =
            [Log (signerAccountId env @ '' won '' @ get_pot M (fst (snd (play M env this))) @ ''!''),
             Transfer (signerAccountId env) (pot (fst (snd (play M env this)))),
             Then (currentAccountId env) ''on_payout_complete'' ''{}'' 0 (XCC_GAS M)])
     \<and> (\<forall>env'. predecessorAccountId env' = currentAccountId env' \<longrightarrow>
          \<not> active (fst (snd (on_payout_complete env' (fst (snd (play M env this))))))
          \<and> (\<forall>env''. \<exists>m. fst (play M env''
                 (fst (snd (on_payout_complete env' (fst (snd (play M env this))))))) = Panic (GameInactive m)))"
proof -
  from assms(1) have a: "active this" by (rule play_Return)
  from assms(1) obtain this' where e: "play_enroll M env this = Inr this'"
    and p: "play M env this = (Return (), fst (play_draw M env this'), snd (play_draw M env this'))"
    using play_Return(2) by blast
  from e a have f: "lottery this' = lottery this" "active this'"
    by (simp_all add: play_enroll_frame)
  with assms(2) have w: "Lottery_play M (lottery this') (randomSeed env)" by simp
  have d: "fst (play_draw M env this') =
      this'\<lparr> lastPlayed := Some (signerAccountId env), winner := Some (signerAccountId env) \<rparr>"
    using w by (simp add: play_draw_fields)
  have 1: "winner (fst (snd (play M env this))) = Some (signerAccountId env)"
    by (simp add: p d)
  have 2: "active (fst (snd (play M env this)))"
    by (simp add: p d f)
  have 3: "signerAccountId env \<noteq> [] \<longrightarrow>
          snd (snd (play M env this)) =
            [Log (signerAccountId env @ '' won '' @ get_pot M (fst (snd (play M env this))) @ ''!''),
             Transfer (signerAccountId env) (pot (fst (snd (play M env this)))),
             Then (currentAccountId env) ''on_payout_complete'' ''{}'' 0 (XCC_GAS M)]"
    using w by (simp add: p d play_draw_win get_pot_def)
  have 4: "\<forall>env'. predecessorAccountId env' = currentAccountId env' \<longrightarrow>
          \<not> active (fst (snd (on_payout_complete env' (fst (snd (play M env this))))))
          \<and> (\<forall>env''. \<exists>m. fst (play M env''
                 (fst (snd (on_payout_complete env' (fst (snd (play M env this))))))) = Panic (GameInactive m))"
    by (simp add: on_payout_complete_def assertSelf_def play_inactive)
  from 1 2 3 4 show ?thesis by blast
qed

text \<open>\<^verbatim>\<open>bob.near\<close> wins on his first play.\<close>

theorem winning_play_schedules_payout_witness:
  "fst (play near_modules (call_by ''bob.near'' 0 ''win'') game1) = Return ()
   \<and> Lottery_play near_modules (lottery game1) (randomSeed (call_by ''bob.near'' 0 ''win''))
   \<and> winner (fst (snd (play near_modules (call_by ''bob.near'' 0 ''win'') game1))) = Some ''bob.near''
   \<and> active (fst (snd (play near_modules (call_by ''bob.near'' 0 ''win'') game1)))
   \<and> Transfer ''bob.near'' (pot (fst (snd (play near_modules (call_by ''bob.near'' 0 ''win'') game1))))
        \<in> set (snd (snd (play near_modules (call_by ''bob.near'' 0 ''win'') game1)))
   \<and> Then ''lottery.near'' ''on_payout_complete'' ''{}'' 0 (XCC_GAS near_modules)
        \<in> set (snd (snd (play near_modules (call_by ''bob.near'' 0 ''win'') game1)))
   \<and> \<not> active (fst (snd (on_payout_complete (call_by ''lottery.near'' 0 [])
          (fst (snd (play near_modules (call_by ''bob.near'' 0 ''win'') game1))))))"
proof -
  have r: "fst (play near_modules (call_by ''bob.near'' 0 ''win'') game1) = Return ()"
    by (simp add: game1_fields model_defs instance_defs)
  have w: "Lottery_play near_modules (lottery game1) (randomSeed (call_by ''bob.near'' 0 ''win''))"
    by (simp add: call_by_def near_modules_def test_modules_def)
  have s: "predecessorAccountId (call_by ''lottery.near'' 0 []) = currentAccountId (call_by ''lottery.near'' 0 [])"
    by (simp add: call_by_def)
  have n: "signerAccountId (call_by ''bob.near'' 0 ''win'') = ''bob.near''"
          "currentAccountId (call_by ''bob.near'' 0 ''win'') = ''lottery.near''"
    by (simp_all add: call_by_def)
  show ?thesis
    using r w s winning_play_schedules_payout [OF r w]
    by (simp add: n)
qed

subsection \<open>C6: the payout confirmation\<close>

text \<open>
  C6: \<^verbatim>\<open>on_payout_complete\<close> called by anyone but the contract itself fails with
  \<^verbatim>\<open>Unauthorized\<close> and leaves every field as it was; called by the contract itself it
  returns and changes \<^verbatim>\<open>active\<close> to false and nothing else; and whenever a call of any
  change method takes the contract from active to inactive, that call is
  \<^verbatim>\<open>on_payout_complete\<close> made by the contract itself.
\<close>

theorem on_payout_complete_closes_game:
  "(predecessorAccountId env \<noteq> currentAccountId env \<longrightarrow>
      on_payout_complete env this =
        (Panic (Unauthorized ''Only this contract may call this method''), this, []))
   \<and> (predecessorAccountId env = currentAccountId env \<longrightarrow>
        fst (on_payout_complete env this) = Return ()
        \<and> fst (snd (on_payout_complete env this)) = this\<lparr> active := False \<rparr>)
   \<and> (active this \<and> \<not> active (step M this (env', c)) \<longrightarrow>
        c = On_payout_complete \<and> predecessorAccountId env' = currentAccountId env')"
  using step_active_falls [of this M env' c]
  by (auto simp: on_payout_complete_def assertSelf_def)

text \<open>The confirmation of the payout of \<^verbatim>\<open>alice.near\<close>, tried by her and made by the contract.\<close>

theorem on_payout_complete_closes_game_witness:
  "on_payout_complete (call_by ''alice.near'' 0 []) game_won =
       (Panic (Unauthorized ''Only this contract may call this method''), game_won, [])
   \<and> fst (on_payout_complete (call_by ''lottery.near'' 0 []) game_won) = Return ()
   \<and> fst (snd (on_payout_complete (call_by ''lottery.near'' 0 []) game_won))
       = game_won\<lparr> active := False \<rparr>
   \<and> active game_won
   \<and> \<not> active (step near_modules game_won (call_by ''lottery.near'' 0 [], On_payout_complete))"
proof -
  have a: "active game_won
      \<and> \<not> active (step near_modules game_won (call_by ''lottery.near'' 0 [], On_payout_complete))"
    by (simp add: game_won_fields commit_def on_payout_complete_def assertSelf_def call_by_def)
  show ?thesis
    using a
      on_payout_complete_closes_game
        [where env = "call_by ''alice.near'' 0 []" and this = game_won and M = near_modules
           and env' = "call_by ''lottery.near'' 0 []" and c = On_payout_complete]
      on_payout_complete_closes_game
        [where env = "call_by ''lottery.near'' 0 []" and this = game_won and M = near_modules
           and env' = "call_by ''lottery.near'' 0 []" and c = On_payout_complete]
    by (simp add: call_by_def)
qed

subsection \<open>C7: failures of \<^verbatim>\<open>play\<close>\<close>

text \<open>
  C7: in an inactive game \<^verbatim>\<open>play\<close> fails with \<^verbatim>\<open>GameInactive\<close>, its message naming the
  winner and the pot, and the fields are as before; and whenever \<^verbatim>\<open>play\<close> fails, the
  failure is \<^verbatim>\<open>GameInactive\<close> or \<^verbatim>\<open>InsufficientFee\<close>, the fields at the failure are
  those at the start of the call, and no host call has been made.
\<close>

theorem play_failure_mutates_nothing:
  "(\<not> active this \<longrightarrow>
      play M env this =
        (Panic (GameInactive (toString_field (winner this) @ '' won ''
                               @ toString_bigint (pot this) @ ''. Please reset the game.'')),
         this, []))
   \<and> (\<forall>e. fst (play M env this) = Panic e \<longrightarrow>
         snd (play M env this) = (this, [])
         \<and> ((\<exists>m. e = GameInactive m) \<or> (\<exists>m. e = InsufficientFee m)))"
proof (intro conjI allI impI)
  assume "\<not> active this"
  then show "play M env this =
        (Panic (GameInactive (toString_field (winner this) @ '' won ''
                               @ toString_bigint (pot this) @ ''. Please reset the game.'')),
         this, [])"
    by (rule play_inactive)
next
  fix e assume "fst (play M env this) = Panic e"
  then show "snd (play M env this) = (this, [])"
    by (rule play_Panic)
next
  fix e assume p: "fst (play M env this) = Panic e"
  show "(\<exists>m. e = GameInactive m) \<or> (\<exists>m. e = InsufficientFee m)"
  proof (cases "active this")
    case False
    with p show ?thesis by (auto simp: play_inactive)
  next
    case True
    with p obtain e' where "play_enroll M env this = Inl e'" and "e = e'"
      by (auto simp: play_active split: sum.splits)
    then show ?thesis by (auto dest: play_enroll_Inl)
  qed
qed

text \<open>
  A play after the game of \<^verbatim>\<open>alice.near\<close> is over, and her second play without a
  deposit.
\<close>

theorem play_failure_mutates_nothing_witness:
  "\<not> active game_over
   \<and> play near_modules (call_by ''bob.near'' 0 ''win'') game_over =
       (Panic (GameInactive ''alice.near won 1000000000000000000000000. Please reset the game.''),
        game_over, [])
   \<and> fst (play near_modules (call_by ''alice.near'' 0 ''win'') game1) =
       Panic (InsufficientFee (generateFeeMessage near_modules game1 (fee near_modules game1)))
   \<and> snd (play near_modules (call_by ''alice.near'' 0 ''win'') game1) = (game1, [])"
proof -
  have i: "\<not> active game_over"
    by (simp add: game_over_fields)
  have p: "fst (play near_modules (call_by ''alice.near'' 0 ''win'') game1) =
       Panic (InsufficientFee (generateFeeMessage near_modules game1 (fee near_modules game1)))"
    by (simp add: game1_fields model_defs instance_defs)
  have m: "toString_field (winner game_over) @ '' won '' @ toString_bigint (pot game_over)
             @ ''. Please reset the game.''
           = ''alice.near won 1000000000000000000000000. Please reset the game.''"
    by (simp add: game_over_fields toString_field_def toString_one_near)
  note t = play_failure_mutates_nothing
             [where M = near_modules and env = "call_by ''bob.near'' 0 ''win''" and this = game_over]
  note u = play_failure_mutates_nothing
             [where M = near_modules and env = "call_by ''alice.near'' 0 ''win''" and this = game1,
               THEN conjunct2, rule_format, OF p]
  from t i m have
    "play near_modules (call_by ''bob.near'' 0 ''win'') game_over =
       (Panic (GameInactive ''alice.near won 1000000000000000000000000. Please reset the game.''),
        game_over, [])"
    by simp
  with i p u show ?thesis by simp
qed

subsection \<open>C8: what a returning player adds to the pot\<close>

text \<open>
  C8 says that the play of an enrolled caller adds exactly the attached value to the pot.
  \<^verbatim>\<open>increasePot\<close> adds \<^verbatim>\<open>BigInt(Number(near.attachedDeposit()))\<close>: of the two NEAR that
  \<^verbatim>\<open>alice.near\<close> attaches to her second play, \<open>1999999999999999966445568\<close> reach the
  pot, \<open>33554432\<close> less than attached.
\<close>

theorem pot_gains_rounded_deposit:
  "signerAccountId (call_by ''alice.near'' 2000000000000000000000000 ''lose'') \<in> set (players game1)
   \<and> fst (play near_modules (call_by ''alice.near'' 2000000000000000000000000 ''lose'') game1)
       = Return ()
   \<and> uint (attachedDeposit (call_by ''alice.near'' 2000000000000000000000000 ''lose''))
       = 2000000000000000000000000
   \<and> pot (fst (snd (play near_modules (call_by ''alice.near'' 2000000000000000000000000 ''lose'') game1)))
       = pot game1 + 1999999999999999966445568"
  by (simp add: game1_fields call_by_def play_def play_enroll_def play_draw_def fee_def
        near_modules_def test_modules_def quadratic_def UnorderedSet_contains_def
        UnorderedSet_len_def increasePot_def BigInt_Number_def Number_two_near Let_def)

subsection \<open>C9: \<^verbatim>\<open>reset\<close>\<close>

text \<open>
  C9: a \<^verbatim>\<open>reset\<close> that passes the check of its caller returns, with \<^verbatim>\<open>players\<close>
  empty, \<^verbatim>\<open>winner\<close> and \<^verbatim>\<open>lastPlayed\<close> the empty string, \<^verbatim>\<open>pot\<close> equal to
  \<^verbatim>\<open>ONE_NEAR\<close> and \<^verbatim>\<open>active\<close> true; \<^verbatim>\<open>owner\<close>, \<^verbatim>\<open>feeStrategy\<close> and
  \<^verbatim>\<open>lottery\<close> are as before.
\<close>

theorem reset_restores_epoch:
  "assertSelf env = None \<Longrightarrow>
     reset M env this =
       (Return (),
        this\<lparr> players := [], winner := Some '''', lastPlayed := Some '''',
              pot := ONE_NEAR M, active := True \<rparr>, [])
     \<and> owner (fst (snd (reset M env this))) = owner this
     \<and> feeStrategy (fst (snd (reset M env this))) = feeStrategy this
     \<and> lottery (fst (snd (reset M env this))) = lottery this"
  by (simp add: reset_def UnorderedSet_clear_def)

text \<open>The game of \<^verbatim>\<open>alice.near\<close>, reset after it is over.\<close>

theorem reset_restores_epoch_witness:
  "assertSelf (call_by ''lottery.near'' 0 []) = None
   \<and> reset near_modules (call_by ''lottery.near'' 0 []) game_over =
       (Return (), game0\<lparr> winner := Some [], lastPlayed := Some [] \<rparr>, [])"
proof -
  have s: "assertSelf (call_by ''lottery.near'' 0 []) = None"
    by (simp add: assertSelf_def call_by_def)
  show ?thesis
    using s reset_restores_epoch [OF s, where M = near_modules and this = game_over]
    by (simp add: game_over_fields game0_fields near_modules_def test_modules_def)
qed

subsection \<open>C10: the pot never falls below the base unit\<close>

text \<open>
  C10: \<^verbatim>\<open>play\<close> never lowers \<^verbatim>\<open>pot\<close>; a play that returns, winning or not, leaves in
  \<^verbatim>\<open>pot\<close> what was there plus what the fee branch added; \<^verbatim>\<open>on_payout_complete\<close> leaves
  \<^verbatim>\<open>pot\<close> as it was; a call of a change method that lowers \<^verbatim>\<open>pot\<close> is a \<^verbatim>\<open>reset\<close>
  and leaves it at \<^verbatim>\<open>ONE_NEAR\<close>; and after every sequence of calls on a newly
  constructed contract \<^verbatim>\<open>pot\<close> is at least \<^verbatim>\<open>ONE_NEAR\<close>.
\<close>

theorem pot_only_lowered_by_reset:
  "pot this \<le> pot (fst (snd (play M env this)))
   \<and> (fst (play M env this) = Return () \<longrightarrow>
        pot (fst (snd (play M env this))) =
          (if signerAccountId env \<in> set (players this)
           then pot this + BigInt_Number (attachedDeposit env) else pot this))
   \<and> pot (fst (snd (on_payout_complete env this))) = pot this
   \<and> (pot (step M this (env, c)) < pot this \<longrightarrow>
        c = Reset \<and> pot (step M this (env, c)) = ONE_NEAR M)
   \<and> ONE_NEAR M \<le> pot (run M (Contract_new M own) cs)"
proof (intro conjI impI)
  show "pot this \<le> pot (fst (snd (play M env this)))"
  proof (cases "fst (play M env this)")
    case (Panic e)
    then show ?thesis by (simp add: play_Panic)
  next
    case (Return u)
    then show ?thesis
      using play_Return_pot [of M env this u] BigInt_Number_nonneg [of "attachedDeposit env"]
      by simp
  qed
next
  assume "fst (play M env this) = Return ()"
  then show "pot (fst (snd (play M env this))) =
          (if signerAccountId env \<in> set (players this)
           then pot this + BigInt_Number (attachedDeposit env) else pot this)"
    by (rule play_Return_pot)
next
  show "pot (fst (snd (on_payout_complete env this))) = pot this"
    by (simp add: on_payout_complete_def split: option.splits)
next
  assume "pot (step M this (env, c)) < pot this"
  then show "c = Reset" using step_pot_falls [of M this env c] by blast
next
  assume "pot (step M this (env, c)) < pot this"
  then show "pot (step M this (env, c)) = ONE_NEAR M"
    using step_pot_falls [of M this env c] by blast
next
  have "ONE_NEAR M \<le> pot (Contract_new M own)"
    by (simp add: Contract_new_def)
  then show "ONE_NEAR M \<le> pot (run M (Contract_new M own) cs)"
    by (rule run_pot_base)
qed

text \<open>
  A winning play of \<^verbatim>\<open>alice.near\<close> with two NEAR attached, a \<^verbatim>\<open>reset\<close> of the game
  she has paid into, and a game won and closed.
\<close>

theorem pot_only_lowered_by_reset_witness:
  "fst (play near_modules (call_by ''alice.near'' 2000000000000000000000000 ''win'') game1) = Return ()
   \<and> pot (fst (snd (play near_modules (call_by ''alice.near'' 2000000000000000000000000 ''win'') game1)))
       = 2999999999999999966445568
   \<and> pot (step near_modules game_paid (call_by ''lottery.near'' 0 [], Reset)) < pot game_paid
   \<and> pot (step near_modules game_paid (call_by ''lottery.near'' 0 [], Reset)) = ONE_NEAR near_modules
   \<and> ONE_NEAR near_modules \<le> pot (run near_modules (Contract_new near_modules ''owner.near'')
        [(call_by ''alice.near'' 0 ''win'', Play), (call_by ''lottery.near'' 0 [], On_payout_complete)])"
proof -
  have r: "fst (play near_modules (call_by ''alice.near'' 2000000000000000000000000 ''win'') game1)
             = Return ()"
    by (simp add: game1_fields play_def play_enroll_def play_draw_def fee_def
        increasePot_def UnorderedSet_contains_def UnorderedSet_len_def
        BigInt_Number_def Number_two_near Let_def instance_defs)
  have l: "pot (step near_modules game_paid (call_by ''lottery.near'' 0 [], Reset)) < pot game_paid"
    by (simp add: game_paid_fields commit_def reset_def assertSelf_def call_by_def
        near_modules_def test_modules_def)
  have d: "BigInt_Number (attachedDeposit (call_by ''alice.near'' 2000000000000000000000000 ''win''))
             = 1999999999999999966445568"
    by (simp add: call_by_def BigInt_Number_def Number_two_near)
  show ?thesis
    using r l d
      pot_only_lowered_by_reset
        [where M = near_modules and this = game1
           and env = "call_by ''alice.near'' 2000000000000000000000000 ''win''"
           and c = Play and own = "''owner.near''"
           and cs = "[(call_by ''alice.near'' 0 ''win'', Play),
                      (call_by ''lottery.near'' 0 [], On_payout_complete)]"]
      pot_only_lowered_by_reset
        [where M = near_modules and this = game_paid
           and env = "call_by ''lottery.near'' 0 []"
           and c = Reset and own = "''owner.near''" and cs = "[]"]
    by (simp add: game1_fields call_by_def)
qed

end
